theory Spec2Isabelle
  imports Main
begin

section \<open>Data model: the appointment collection (citaSchema)\<close>

text \<open>
  The backend (src/backend/server.js) keeps one MongoDB collection of appointments.
  A document is a record with the fields of \<^verbatim>\<open>citaSchema\<close>; the status enumeration is a
  datatype; dates are instants in milliseconds since the epoch, as a JavaScript
  \<^verbatim>\<open>Date\<close> holds them. The collection is the list of its documents in insertion order.
  Text is a list of 8-bit characters, so the model covers the strings of Latin-1
  characters; identifiers are numbers.
\<close>

datatype estado = Confirmada | Cancelada | Completada

record cita =
  id_cita :: nat
  nombreCompleto :: string
  email :: string
  telefono :: string
  tipoServicio :: string
  fecha :: int
  horario :: string
  estado :: estado
  googleCalendarEventId :: "string option"
  fechaCreacion :: int

type_synonym coleccion = "cita list"

text \<open>The body of \<^verbatim>\<open>POST /api/appointments\<close>: six text fields.\<close>

record solicitud =
  body_nombreCompleto :: string
  body_email :: string
  body_telefono :: string
  body_tipoServicio :: string
  body_fecha :: string
  body_horario :: string

text \<open>
  Functions of validator.js and of the JavaScript runtime that the handlers call and
  whose code is not part of the repository. They are parameters of the model.
  \<open>toDate\<close> yields \<open>None\<close> where the sanitizer yields \<^verbatim>\<open>null\<close>.
\<close>

record biblioteca =
  isEmail :: "string \<Rightarrow> bool"
  normalizeEmail :: "string \<Rightarrow> string"
  isISO8601 :: "string \<Rightarrow> bool"
  toDate :: "string \<Rightarrow> int option"
  toLowerCase :: "string \<Rightarrow> string"

text \<open>
  What one run of the POST handler receives from outside: the clock and the time zone
  offset of the server (local time = UTC + \<open>tz\<close>, in milliseconds), the identifier
  generated for the new document, whether each storage call throws, and what the two
  collaborators answer. \<open>calendario = None\<close>: \<^verbatim>\<open>crearEventoGoogleCalendar\<close> throws;
  \<open>Some g\<close>: it returns the event id \<open>g\<close>.
\<close>

record entorno =
  ahora :: int
  tz :: int
  nuevo_id :: nat
  falla_findOne :: bool
  falla_save :: bool
  calendario :: "string option"
  falla_save2 :: bool
  sms_ok :: bool

datatype excepcion = MongoError nat | OtroError

text \<open>
  Calls to the collaborators, in the order made: \<^verbatim>\<open>calendar.events.insert\<close> for a
  document, \<^verbatim>\<open>twilioClient.messages.create\<close> to a phone number,
  \<^verbatim>\<open>calendar.events.delete\<close> of an event id.
\<close>

datatype efecto =
    CalendarioInsert cita
  | SmsEnviar string
  | CalendarioDelete string

record error_validacion =
  campo :: string
  msg :: string

record cita_creada =
  r_id :: nat
  r_nombreCompleto :: string
  r_fecha :: int
  r_horario :: string
  r_tipoServicio :: string
  r_googleCalendar :: bool
  r_sms :: bool

datatype respuesta =
    Creada cita_creada
  | DatosInvalidos "error_validacion list"
  | HorarioOcupado
  | ErrorServidor
  | NoEncontrada
  | CancelacionOk nat estado
  | Ocupadas "(nat \<times> int \<times> string) list"

fun codigo :: "respuesta \<Rightarrow> nat" where
  "codigo (Creada _) = 201"
| "codigo (DatosInvalidos _) = 400"
| "codigo HorarioOcupado = 409"
| "codigo ErrorServidor = 500"
| "codigo NoEncontrada = 404"
| "codigo (CancelacionOk _ _) = 200"
| "codigo (Ocupadas _) = 200"

section \<open>Validation chains of POST /api/appointments\<close>

definition servicios :: "string list" where
  "servicios = [''limpieza-dental'', ''ortodoncia'', ''extracciones'', ''implantes'',
     ''carillas'', ''dise'' @ [CHR 0xF1] @ ''o-sonrisa'', ''radiografia'',
     ''protesis-dentales'']"

definition horarios :: "string list" where
  "horarios = [''08:00'', ''09:00'', ''10:00'', ''11:00'', ''13:00'', ''14:00'',
     ''15:00'', ''16:00'']"

text \<open>
  The white space that \<^verbatim>\<open>trim\<close> strips, among 8-bit characters: tab, line feed,
  vertical tab, form feed, carriage return, space and no-break space.
\<close>

definition es_espacio :: "char \<Rightarrow> bool" where
  "es_espacio c = (c \<in> set [CHR 0x09, CHR 0x0A, CHR 0x0B, CHR 0x0C, CHR 0x0D, CHR 0x20, CHR 0xA0])"

definition trim :: "string \<Rightarrow> string" where
  "trim s = rev (dropWhile es_espacio (rev (dropWhile es_espacio s)))"

definition es_digito :: "char \<Rightarrow> bool" where
  "es_digito c = (c \<in> set ''0123456789'')"

text \<open>The pattern \<^verbatim>\<open>/^\+503[0-9]{8}$/\<close>.\<close>

definition telefono_valido :: "string \<Rightarrow> bool" where
  "telefono_valido s = (take 4 s = ''+503'' \<and> length (drop 4 s) = 8 \<and> list_all es_digito (drop 4 s))"

definition nombre_valido :: "string \<Rightarrow> bool" where
  "nombre_valido s = (2 \<le> length (trim s) \<and> length (trim s) \<le> 100)"

text \<open>
  \<^verbatim>\<open>hoy = new Date(); hoy.setHours(0, 0, 0, 0)\<close>: the instant at which the current day
  began in the server's local time. \<open>dia_local z t\<close> is the number of the local calendar
  day that holds the instant \<open>t\<close>.
\<close>

definition dia_local :: "int \<Rightarrow> int \<Rightarrow> int" where
  "dia_local z t = (t + z) div 86400000"

definition inicio_del_dia :: "int \<Rightarrow> int \<Rightarrow> int" where
  "inicio_del_dia z t = dia_local z t * 86400000 - z"

text \<open>
  What the handler holds in \<^verbatim>\<open>req.body.fecha\<close> after the sanitizer \<^verbatim>\<open>toDate\<close>, read as a
  number: \<^verbatim>\<open>null\<close> compares as 0 and \<^verbatim>\<open>new Date(null)\<close> is the epoch.
\<close>

definition fecha_saneada :: "biblioteca \<Rightarrow> solicitud \<Rightarrow> int" where
  "fecha_saneada lib req = (case toDate lib (body_fecha req) of None \<Rightarrow> 0 | Some t \<Rightarrow> t)"

definition fecha_pasada :: "biblioteca \<Rightarrow> entorno \<Rightarrow> solicitud \<Rightarrow> bool" where
  "fecha_pasada lib env req = (fecha_saneada lib req < inicio_del_dia (tz env) (ahora env))"

definition err :: "string \<Rightarrow> string \<Rightarrow> error_validacion" where
  "err c m = \<lparr>campo = c, msg = m\<rparr>"

definition validar_nombreCompleto :: "solicitud \<Rightarrow> error_validacion list" where
  "validar_nombreCompleto req =
     (if nombre_valido (body_nombreCompleto req) then []
      else [err ''nombreCompleto'' ''El nombre debe tener entre 2 y 100 caracteres''])"

definition validar_email :: "biblioteca \<Rightarrow> solicitud \<Rightarrow> error_validacion list" where
  "validar_email lib req =
     (if isEmail lib (body_email req) then []
      else [err ''email'' (''Debe ser un email v'' @ [CHR 0xE1] @ ''lido'')])"

definition validar_telefono :: "solicitud \<Rightarrow> error_validacion list" where
  "validar_telefono req =
     (if telefono_valido (body_telefono req) then []
      else [err ''telefono''
              (''El tel'' @ [CHR 0xE9] @ ''fono debe tener el formato +503XXXXXXXX'')])"

definition validar_tipoServicio :: "solicitud \<Rightarrow> error_validacion list" where
  "validar_tipoServicio req =
     (if body_tipoServicio req \<in> set servicios then []
      else [err ''tipoServicio'' (''Tipo de servicio no v'' @ [CHR 0xE1] @ ''lido'')])"

text \<open>
  The chain of \<^verbatim>\<open>fecha\<close> has two validators and no \<^verbatim>\<open>bail\<close>: both run, the custom one on
  the sanitized value.
\<close>

definition validar_fecha :: "biblioteca \<Rightarrow> entorno \<Rightarrow> solicitud \<Rightarrow> error_validacion list" where
  "validar_fecha lib env req =
     (if isISO8601 lib (body_fecha req) then [] else [err ''fecha'' ''Invalid value'']) @
     (if fecha_pasada lib env req then [err ''fecha'' ''La fecha no puede ser en el pasado'']
      else [])"

definition validar_horario :: "solicitud \<Rightarrow> error_validacion list" where
  "validar_horario req =
     (if body_horario req \<in> set horarios then []
      else [err ''horario'' (''Horario no v'' @ [CHR 0xE1] @ ''lido'')])"

definition validationResult :: "biblioteca \<Rightarrow> entorno \<Rightarrow> solicitud \<Rightarrow> error_validacion list" where
  "validationResult lib env req =
     validar_nombreCompleto req @ validar_email lib req @ validar_telefono req @
     validar_tipoServicio req @ validar_fecha lib env req @ validar_horario req"

section \<open>Storage operations\<close>

text \<open>
  \<^verbatim>\<open>Cita.findOne({fecha, horario, estado: 'confirmada'})\<close>, and the insert of a new
  document under the two unique indexes of the collection: \<^verbatim>\<open>_id\<close> and
  \<^verbatim>\<open>{fecha: 1, horario: 1}\<close>. The second index has no filter on \<^verbatim>\<open>estado\<close>. A violated
  index is the MongoDB error of code 11000.
\<close>

definition findOne_confirmada :: "coleccion \<Rightarrow> int \<Rightarrow> string \<Rightarrow> cita option" where
  "findOne_confirmada s f h =
     find (\<lambda>c. fecha c = f \<and> horario c = h \<and> estado c = Confirmada) s"

definition clave_duplicada :: "coleccion \<Rightarrow> cita \<Rightarrow> bool" where
  "clave_duplicada s c =
     list_ex (\<lambda>d. id_cita d = id_cita c \<or> (fecha d = fecha c \<and> horario d = horario c)) s"

definition insertar :: "coleccion \<Rightarrow> cita \<Rightarrow> excepcion + coleccion" where
  "insertar s c = (if clave_duplicada s c then Inl (MongoError 11000) else Inr (s @ [c]))"

text \<open>
  The second \<^verbatim>\<open>nuevaCita.save()\<close> writes the one modified path,
  \<^verbatim>\<open>googleCalendarEventId\<close>, to the document of that \<^verbatim>\<open>_id\<close>.
\<close>

definition adjuntar_evento :: "coleccion \<Rightarrow> nat \<Rightarrow> string \<Rightarrow> coleccion" where
  "adjuntar_evento s i g =
     map (\<lambda>d. if id_cita d = i then d\<lparr>googleCalendarEventId := Some g\<rparr> else d) s"

text \<open>
  \<^verbatim>\<open>Cita.findByIdAndUpdate(id, upd, {new: true})\<close>: the first document of that \<^verbatim>\<open>_id\<close> is
  updated and returned as updated; \<open>None\<close> is \<^verbatim>\<open>null\<close>.
\<close>

fun findByIdAndUpdate :: "nat \<Rightarrow> (cita \<Rightarrow> cita) \<Rightarrow> coleccion \<Rightarrow> cita option \<times> coleccion" where
  "findByIdAndUpdate i f [] = (None, [])"
| "findByIdAndUpdate i f (d # ds) =
     (if id_cita d = i then (Some (f d), f d # ds)
      else (case findByIdAndUpdate i f ds of (r, ds') \<Rightarrow> (r, d # ds')))"

section \<open>POST /api/appointments\<close>

text \<open>The outer \<^verbatim>\<open>catch\<close> of the handler.\<close>

fun manejar_error :: "excepcion \<Rightarrow> respuesta" where
  "manejar_error (MongoError c) = (if c = 11000 then HorarioOcupado else ErrorServidor)"
| "manejar_error OtroError = ErrorServidor"

text \<open>
  \<^verbatim>\<open>new Cita({...})\<close> from the sanitized body, with the setters (\<^verbatim>\<open>trim\<close>,
  \<^verbatim>\<open>lowercase\<close>) and the defaults of the schema.
\<close>

definition nuevaCita :: "biblioteca \<Rightarrow> entorno \<Rightarrow> solicitud \<Rightarrow> cita" where
  "nuevaCita lib env req =
     \<lparr> id_cita = nuevo_id env,
       nombreCompleto = trim (trim (body_nombreCompleto req)),
       email = toLowerCase lib (trim (normalizeEmail lib (body_email req))),
       telefono = trim (body_telefono req),
       tipoServicio = body_tipoServicio req,
       fecha = fecha_saneada lib req,
       horario = body_horario req,
       estado = Confirmada,
       googleCalendarEventId = None,
       fechaCreacion = ahora env \<rparr>"

text \<open>
  The handler runs in four stretches, each ending at a storage call or at the response.
  First stretch: the validation result, then \<^verbatim>\<open>findOne\<close>. \<open>Inl r\<close>: the handler has
  answered \<open>r\<close>; \<open>Inr c\<close>: it goes on with the new document \<open>c\<close>.
\<close>

definition fase_verificar ::
  "biblioteca \<Rightarrow> entorno \<Rightarrow> solicitud \<Rightarrow> coleccion \<Rightarrow> respuesta + cita" where
  "fase_verificar lib env req s =
     (let errores = validationResult lib env req in
      if errores \<noteq> [] then Inl (DatosInvalidos errores)
      else if falla_findOne env then Inl (manejar_error OtroError)
      else (case findOne_confirmada s (fecha_saneada lib req) (body_horario req) of
              Some _ \<Rightarrow> Inl HorarioOcupado
            | None \<Rightarrow> Inr (nuevaCita lib env req)))"

text \<open>Second stretch: the first \<^verbatim>\<open>nuevaCita.save()\<close>.\<close>

definition fase_guardar :: "entorno \<Rightarrow> cita \<Rightarrow> coleccion \<Rightarrow> respuesta + coleccion" where
  "fase_guardar env c s =
     (if falla_save env then Inl (manejar_error OtroError)
      else (case insertar s c of
              Inl e \<Rightarrow> Inl (manejar_error e)
            | Inr s' \<Rightarrow> Inr s'))"

text \<open>
  Third stretch: the calendar \<^verbatim>\<open>try\<close> block. It yields the value of the variable
  \<^verbatim>\<open>googleEventId\<close> (\<open>None\<close> is \<^verbatim>\<open>null\<close>), the document \<^verbatim>\<open>nuevaCita\<close> as it is in
  memory afterwards, the collection and the collaborator calls made. The variable and
  the field in memory are assigned before the second save, so a save that throws
  leaves both set and only the stored document without the reference.
\<close>

definition fase_calendario ::
  "entorno \<Rightarrow> cita \<Rightarrow> coleccion \<Rightarrow> string option \<times> cita \<times> coleccion \<times> efecto list" where
  "fase_calendario env c s =
     (case calendario env of
        None \<Rightarrow> (None, c, s, [CalendarioInsert c])
      | Some g \<Rightarrow>
          (Some g,
           c\<lparr>googleCalendarEventId := Some g\<rparr>,
           if falla_save2 env then s else adjuntar_evento s (id_cita c) g,
           [CalendarioInsert c]))"

text \<open>\<^verbatim>\<open>!!googleEventId\<close>: \<^verbatim>\<open>null\<close> and the empty string are falsy.\<close>

fun verdadero :: "string option \<Rightarrow> bool" where
  "verdadero None = False"
| "verdadero (Some g) = (g \<noteq> [])"

text \<open>Fourth stretch: the SMS \<^verbatim>\<open>try\<close> block and the response.\<close>

definition fase_sms :: "entorno \<Rightarrow> cita \<Rightarrow> string option \<Rightarrow> respuesta \<times> efecto list" where
  "fase_sms env c g =
     (Creada \<lparr> r_id = id_cita c,
               r_nombreCompleto = nombreCompleto c,
               r_fecha = fecha c,
               r_horario = horario c,
               r_tipoServicio = tipoServicio c,
               r_googleCalendar = verdadero g,
               r_sms = sms_ok env \<rparr>,
      [SmsEnviar (telefono c)])"

text \<open>The whole handler: response, collection afterwards, collaborator calls in order.\<close>

definition crear_cita ::
  "biblioteca \<Rightarrow> entorno \<Rightarrow> solicitud \<Rightarrow> coleccion \<Rightarrow> respuesta \<times> coleccion \<times> efecto list" where
  "crear_cita lib env req s =
     (case fase_verificar lib env req s of
        Inl r \<Rightarrow> (r, s, [])
      | Inr c \<Rightarrow>
          (case fase_guardar env c s of
             Inl r \<Rightarrow> (r, s, [])
           | Inr s1 \<Rightarrow>
               (case fase_calendario env c s1 of
                  (g, c', s2, e1) \<Rightarrow>
                    (case fase_sms env c' g of
                       (r, e2) \<Rightarrow> (r, s2, e1 @ e2)))))"

section \<open>GET /api/appointments/occupied and PATCH /api/appointments/:id/cancel\<close>

text \<open>
  The query is \<^verbatim>\<open>{estado: 'confirmada', fecha: {$gte: new Date()}}\<close> with the projection
  \<^verbatim>\<open>'fecha horario'\<close>; \<open>t\<close> is the clock at the call and \<open>falla\<close> says whether the query
  throws.
\<close>

definition citas_ocupadas :: "bool \<Rightarrow> int \<Rightarrow> coleccion \<Rightarrow> respuesta \<times> coleccion \<times> efecto list" where
  "citas_ocupadas falla t s =
     (if falla then (ErrorServidor, s, [])
      else (Ocupadas (map (\<lambda>c. (id_cita c, fecha c, horario c))
                        (filter (\<lambda>c. estado c = Confirmada \<and> t \<le> fecha c) s)),
            s, []))"

text \<open>
  The cancel handler. A throw of \<^verbatim>\<open>calendar.events.delete\<close> is caught and only logged, so
  the call is recorded and its outcome changes nothing.
\<close>

definition cancelar_cita :: "bool \<Rightarrow> nat \<Rightarrow> coleccion \<Rightarrow> respuesta \<times> coleccion \<times> efecto list" where
  "cancelar_cita falla i s =
     (if falla then (ErrorServidor, s, [])
      else (case findByIdAndUpdate i (\<lambda>d. d\<lparr>estado := Cancelada\<rparr>) s of
              (None, _) \<Rightarrow> (NoEncontrada, s, [])
            | (Some c, s') \<Rightarrow>
                (CancelacionOk (id_cita c) (estado c), s',
                 (case googleCalendarEventId c of
                    None \<Rightarrow> []
                  | Some g \<Rightarrow> if verdadero (Some g) then [CalendarioDelete g] else []))))"

text \<open>
  The route takes the identifier as text from the path. Mongoose casts it to an
  \<^verbatim>\<open>ObjectId\<close> before the query; for text that cannot be cast,
  \<^verbatim>\<open>findByIdAndUpdate\<close> throws (\<^verbatim>\<open>CastError\<close>) and the \<^verbatim>\<open>catch\<close> of the handler answers
  500. The cast is Mongoose's, a parameter here; \<open>cancelar_cita\<close> is the handler from
  the cast identifier on.
\<close>

definition cancelar_ruta ::
  "(string \<Rightarrow> nat option) \<Rightarrow> bool \<Rightarrow> string \<Rightarrow> coleccion \<Rightarrow> respuesta \<times> coleccion \<times> efecto list" where
  "cancelar_ruta castObjectId falla x s =
     (case castObjectId x of
        None \<Rightarrow> (ErrorServidor, s, [])
      | Some i \<Rightarrow> cancelar_cita falla i s)"

section \<open>Two requests at once\<close>

text \<open>
  Node runs a handler until its next \<^verbatim>\<open>await\<close>, so two POST requests interleave at
  the stretches above, each of which makes at most one storage call, and the storage
  executes each call atomically. A request is at the start, or has looked the slot up
  and holds its new document, or has saved it, or has finished the calendar block, or
  has answered. \<open>paso\<close> runs the next stretch of one request on the shared collection;
  \<open>concurrente\<close> runs two requests under a schedule that says whose turn it is
  (\<open>False\<close>: the first request, \<open>True\<close>: the second).
\<close>

datatype proceso = Inicio | Verificado cita | Guardado cita | ConEvento cita "string option"
  | Fin respuesta

fun paso ::
  "biblioteca \<Rightarrow> entorno \<Rightarrow> solicitud \<Rightarrow> proceso \<Rightarrow> coleccion \<Rightarrow> proceso \<times> coleccion \<times> efecto list" where
  "paso lib env req Inicio s =
     (case fase_verificar lib env req s of
        Inl r \<Rightarrow> (Fin r, s, [])
      | Inr c \<Rightarrow> (Verificado c, s, []))"
| "paso lib env req (Verificado c) s =
     (case fase_guardar env c s of
        Inl r \<Rightarrow> (Fin r, s, [])
      | Inr s1 \<Rightarrow> (Guardado c, s1, []))"
| "paso lib env req (Guardado c) s =
     (case fase_calendario env c s of (g, c', s2, e1) \<Rightarrow> (ConEvento c' g, s2, e1))"
| "paso lib env req (ConEvento c g) s =
     (case fase_sms env c g of (r, e2) \<Rightarrow> (Fin r, s, e2))"
| "paso lib env req (Fin r) s = (Fin r, s, [])"

type_synonym config = "proceso \<times> proceso \<times> coleccion \<times> efecto list"

fun concurrente ::
  "biblioteca \<Rightarrow> entorno \<times> solicitud \<Rightarrow> entorno \<times> solicitud \<Rightarrow> bool list \<Rightarrow> config \<Rightarrow> config" where
  "concurrente lib a b [] k = k"
| "concurrente lib a b (t # ts) (p1, p2, s, es) =
     (if t then (case paso lib (fst b) (snd b) p2 s of
                   (p2', s', e) \<Rightarrow> concurrente lib a b ts (p1, p2', s', es @ e))
      else (case paso lib (fst a) (snd a) p1 s of
              (p1', s', e) \<Rightarrow> concurrente lib a b ts (p1', p2, s', es @ e)))"








section \<open>Sample inputs\<close>

text \<open>
  A small instance of the library functions, a server clock (1 January 2030, 10:00 UTC,
  at UTC-6), a well-formed request and the document the handler builds from it. The
  properties below are run on them.
\<close>

definition lib_prueba :: biblioteca where
  "lib_prueba =
     \<lparr> isEmail = (\<lambda>s. CHR ''@'' \<in> set s),
       normalizeEmail = (\<lambda>s. s),
       isISO8601 = (\<lambda>s. s = ''2030-01-15'' \<or> s = ''2020-01-15''),
       toDate = (\<lambda>s. if s = ''2030-01-15'' then Some 1894665600000
                      else if s = ''2020-01-15'' then Some 1579046400000 else None),
       toLowerCase = (\<lambda>s. s) \<rparr>"

definition env_prueba :: entorno where
  "env_prueba =
     \<lparr> ahora = 1893492000000, tz = - 21600000, nuevo_id = 1,
       falla_findOne = False, falla_save = False,
       calendario = Some ''evt1'', falla_save2 = False, sms_ok = True \<rparr>"

definition req_prueba :: solicitud where
  "req_prueba =
     \<lparr> body_nombreCompleto = ''Ana Lopez'', body_email = ''ana@example.com'',
       body_telefono = ''+50370001111'', body_tipoServicio = ''limpieza-dental'',
       body_fecha = ''2030-01-15'', body_horario = ''09:00'' \<rparr>"

definition cita_prueba :: cita where
  "cita_prueba =
     \<lparr> id_cita = 1, nombreCompleto = ''Ana Lopez'', email = ''ana@example.com'',
       telefono = ''+50370001111'', tipoServicio = ''limpieza-dental'',
       fecha = 1894665600000, horario = ''09:00'', estado = Confirmada,
       googleCalendarEventId = None, fechaCreacion = 1893492000000 \<rparr>"

definition env_sin_adjuntar :: entorno where
  "env_sin_adjuntar = env_prueba\<lparr>falla_save2 := True\<rparr>"

definition req_invalida :: solicitud where
  "req_invalida = req_prueba\<lparr>body_nombreCompleto := '' A '', body_horario := ''12:00''\<rparr>"

definition req_pasada :: solicitud where
  "req_pasada = req_prueba\<lparr>body_fecha := ''2020-01-15'', body_tipoServicio := ''masaje''\<rparr>"

definition env_segunda :: entorno where
  "env_segunda = env_prueba\<lparr>nuevo_id := 2, ahora := 1893495600000\<rparr>"

definition cita_cancelada :: cita where
  "cita_cancelada = cita_prueba\<lparr>estado := Cancelada\<rparr>"

definition cita_completada :: cita where
  "cita_completada = cita_prueba\<lparr>estado := Completada\<rparr>"

definition cita_hoy :: cita where
  "cita_hoy = cita_prueba\<lparr>fecha := 1893456000000\<rparr>"

definition req_otra :: solicitud where
  "req_otra = req_prueba\<lparr>body_nombreCompleto := ''Luis Perez'',
     body_email := ''luis@example.com'', body_telefono := ''+50370002222''\<rparr>"

definition cita_otra :: cita where
  "cita_otra = cita_prueba\<lparr>id_cita := 9, horario := ''10:00''\<rparr>"

definition plan_carrera :: "bool list" where
  "plan_carrera = [False, True, False, True, False, False, True, True]"

text \<open>
  A cast of identifiers for the sample inputs, as Mongoose reads them: 24 hexadecimal
  digits, taken as a number. A second library instance that also parses a date with a
  time of day, a server at UTC, a third request environment, and a request for the same
  day and slot whose date carries a time of day, with the document built from it.
\<close>

definition valor_hex :: "char \<Rightarrow> nat" where
  "valor_hex c =
     (if c \<in> set ''ABCDEF'' then 10 + length (takeWhile (\<lambda>d. d \<noteq> c) ''ABCDEF'')
      else length (takeWhile (\<lambda>d. d \<noteq> c) ''0123456789abcdef''))"

definition castObjectId_prueba :: "string \<Rightarrow> nat option" where
  "castObjectId_prueba x =
     (if length x = 24 \<and> list_all (\<lambda>c. c \<in> set ''0123456789abcdefABCDEF'') x
      then Some (foldl (\<lambda>n c. 16 * n + valor_hex c) 0 x) else None)"







section \<open>Properties of the booking handler\<close>

lemmas validacion_defs = validationResult_def
  validar_nombreCompleto_def validar_email_def validar_telefono_def validar_tipoServicio_def
  validar_fecha_def validar_horario_def err_def

lemmas regla_defs = nombre_valido_def telefono_valido_def trim_def
  es_espacio_def es_digito_def servicios_def horarios_def fecha_pasada_def fecha_saneada_def
  inicio_del_dia_def dia_local_def

lemmas prueba_defs = lib_prueba_def env_prueba_def req_prueba_def cita_prueba_def

lemma adjuntar_evento_sin_id:
  "\<forall>d\<in>set s. id_cita d \<noteq> i \<Longrightarrow> adjuntar_evento s i g = s"
  by (induction s) (simp_all add: adjuntar_evento_def)

lemma insertar_Inr:
  "insertar s c = Inr s1 \<Longrightarrow>
     s1 = s @ [c] \<and> (\<forall>d\<in>set s. id_cita d \<noteq> id_cita c \<and> \<not> (fecha d = fecha c \<and> horario d = horario c))"
  by (auto simp: insertar_def clave_duplicada_def list_ex_iff split: if_splits)

lemma fase_guardar_Inr:
  "fase_guardar env c s = Inr s1 \<Longrightarrow>
     s1 = s @ [c] \<and> (\<forall>d\<in>set s. id_cita d \<noteq> id_cita c \<and> \<not> (fecha d = fecha c \<and> horario d = horario c))"
  by (auto simp: fase_guardar_def split: if_splits sum.splits dest: insertar_Inr)

lemma fase_verificar_Inr:
  "fase_verificar lib env req s = Inr c \<Longrightarrow>
     c = nuevaCita lib env req \<and> validationResult lib env req = [] \<and>
     findOne_confirmada s (fecha c) (horario c) = None"
  by (auto simp: fase_verificar_def Let_def nuevaCita_def split: if_splits option.splits)

lemma crear_cita_persistida:
  assumes v: "fase_verificar lib env req s = Inr c" and g: "fase_guardar env c s = Inr s1"
  shows "crear_cita lib env req s =
     (Creada \<lparr> r_id = nuevo_id env, r_nombreCompleto = nombreCompleto c, r_fecha = fecha c,
               r_horario = horario c, r_tipoServicio = tipoServicio c,
               r_googleCalendar = verdadero (calendario env), r_sms = sms_ok env \<rparr>,
      s @ [c\<lparr>googleCalendarEventId := (if falla_save2 env then None else calendario env)\<rparr>],
      [CalendarioInsert c, SmsEnviar (telefono c)])"
proof -
  from v have c: "c = nuevaCita lib env req" by (simp add: fase_verificar_Inr)
  then have idc: "id_cita c = nuevo_id env" and none: "googleCalendarEventId c = None"
    by (simp_all add: nuevaCita_def)
  from g have s1: "s1 = s @ [c]" and fresh: "\<forall>d\<in>set s. id_cita d \<noteq> id_cita c"
    by (auto dest: fase_guardar_Inr)
  have same: "c\<lparr>googleCalendarEventId := None\<rparr> = c" using none by simp
  have adj: "adjuntar_evento (s @ [c]) (id_cita c) x = s @ [c\<lparr>googleCalendarEventId := Some x\<rparr>]" for x
    using adjuntar_evento_sin_id [OF fresh] by (simp add: adjuntar_evento_def)
  show ?thesis
    using v g s1 idc same adj
    by (simp add: crear_cita_def fase_calendario_def fase_sms_def split: option.splits)
qed

lemma nuevaCita_entorno:
  "nuevaCita lib (env\<lparr>calendario := k, falla_save2 := f2, sms_ok := m\<rparr>) req =
   nuevaCita lib env req"
  by (simp add: nuevaCita_def)

lemma validationResult_entorno:
  "validationResult lib (env\<lparr>calendario := k, falla_save2 := f2, sms_ok := m\<rparr>) req =
   validationResult lib env req"
  by (simp add: validacion_defs fecha_pasada_def)

lemma fase_verificar_entorno:
  "fase_verificar lib (env\<lparr>calendario := k, falla_save2 := f2, sms_ok := m\<rparr>) req s =
   fase_verificar lib env req s"
  by (simp add: fase_verificar_def nuevaCita_entorno validationResult_entorno Let_def
      split: option.split)

lemma fase_guardar_entorno:
  "fase_guardar (env\<lparr>calendario := k, falla_save2 := f2, sms_ok := m\<rparr>) c s =
   fase_guardar env c s"
  by (simp add: fase_guardar_def)

text \<open>
  C3. Once the reservation is persisted (the first two stretches went through), the
  handler answers 201 with the generated identifier and two flags, whatever the two
  collaborators and the second save do: the calendar flag depends on the calendar
  answer only, the SMS flag on the SMS answer only, both collaborators are called in
  every case, and the stored appointment stays confirmed at its date and slot.
\<close>

theorem integraciones_no_fallan_la_reserva:
  assumes "fase_verificar lib env req s = Inr c" and "fase_guardar env c s = Inr s1"
  shows "\<forall>k f2 m. \<exists>r s2.
     crear_cita lib (env\<lparr>calendario := k, falla_save2 := f2, sms_ok := m\<rparr>) req s =
       (Creada r, s2, [CalendarioInsert c, SmsEnviar (telefono c)]) \<and>
     codigo (Creada r) = 201 \<and> r_id r = nuevo_id env \<and>
     r_googleCalendar r = verdadero k \<and> r_sms r = m \<and>
     (\<exists>d\<in>set s2. id_cita d = nuevo_id env \<and> fecha d = fecha c \<and> horario d = horario c \<and>
        estado d = Confirmada)"
proof (intro allI)
  fix k f2 m
  let ?env = "env\<lparr>calendario := k, falla_save2 := f2, sms_ok := m\<rparr>"
  have v: "fase_verificar lib ?env req s = Inr c"
    using assms(1) by (simp only: fase_verificar_entorno)
  have g: "fase_guardar ?env c s = Inr s1"
    using assms(2) by (simp only: fase_guardar_entorno)
  from assms(1) have c: "c = nuevaCita lib env req" by (simp add: fase_verificar_Inr)
  then have cf: "id_cita c = nuevo_id env" "estado c = Confirmada"
    by (simp_all add: nuevaCita_def)
  show "\<exists>r s2.
     crear_cita lib ?env req s = (Creada r, s2, [CalendarioInsert c, SmsEnviar (telefono c)]) \<and>
     codigo (Creada r) = 201 \<and> r_id r = nuevo_id env \<and>
     r_googleCalendar r = verdadero k \<and> r_sms r = m \<and>
     (\<exists>d\<in>set s2. id_cita d = nuevo_id env \<and> fecha d = fecha c \<and> horario d = horario c \<and>
        estado d = Confirmada)"
    using crear_cita_persistida [OF v g] cf by simp
qed

lemma verificar_prueba:
  "fase_verificar lib_prueba env_prueba req_prueba [] = Inr cita_prueba"
  by (simp add: fase_verificar_def validacion_defs regla_defs prueba_defs nuevaCita_def
      findOne_confirmada_def)

lemma guardar_prueba:
  "fase_guardar env_prueba cita_prueba [] = Inr [cita_prueba]"
  by (simp add: fase_guardar_def insertar_def clave_duplicada_def prueba_defs)

theorem integraciones_no_fallan_la_reserva_witness:
  "fase_verificar lib_prueba env_prueba req_prueba [] = Inr cita_prueba \<and>
   fase_guardar env_prueba cita_prueba [] = Inr [cita_prueba] \<and>
   (\<exists>r s2. crear_cita lib_prueba
       (env_prueba\<lparr>calendario := None, falla_save2 := False, sms_ok := False\<rparr>) req_prueba [] =
       (Creada r, s2, [CalendarioInsert cita_prueba, SmsEnviar ''+50370001111'']) \<and>
      r_id r = 1 \<and> \<not> r_googleCalendar r \<and> \<not> r_sms r)"
proof -
  have tel: "telefono cita_prueba = ''+50370001111''" and i: "nuevo_id env_prueba = 1"
    by (simp_all add: prueba_defs)
  from integraciones_no_fallan_la_reserva [OF verificar_prueba guardar_prueba]
  obtain r s2 where
    "crear_cita lib_prueba
       (env_prueba\<lparr>calendario := None, falla_save2 := False, sms_ok := False\<rparr>) req_prueba [] =
       (Creada r, s2, [CalendarioInsert cita_prueba, SmsEnviar (telefono cita_prueba)])"
    "r_id r = nuevo_id env_prueba" "r_googleCalendar r = verdadero None" "r_sms r = False"
    by blast
  with tel i have "\<exists>r s2. crear_cita lib_prueba
       (env_prueba\<lparr>calendario := None, falla_save2 := False, sms_ok := False\<rparr>) req_prueba [] =
       (Creada r, s2, [CalendarioInsert cita_prueba, SmsEnviar ''+50370001111'']) \<and>
      r_id r = 1 \<and> \<not> r_googleCalendar r \<and> \<not> r_sms r"
    by auto
  with verificar_prueba guardar_prueba show ?thesis by (intro conjI)
qed

text \<open>
  C9. When the calendar collaborator returns an event id and the save that should attach
  it to the appointment throws, the handler still answers 201 with the calendar flag
  set, and the stored appointment carries no calendar reference: the flag tells that
  the event was created, not that the reference was attached.
\<close>

theorem bandera_calendario_sin_referencia:
  assumes "fase_verificar lib env req s = Inr c" and "fase_guardar env c s = Inr s1"
    and "calendario env = Some g" and "g \<noteq> []" and "falla_save2 env"
  shows "\<exists>r es. crear_cita lib env req s = (Creada r, s @ [c], es) \<and>
     codigo (Creada r) = 201 \<and> r_googleCalendar r \<and> googleCalendarEventId c = None"
proof -
  from assms(1) have "c = nuevaCita lib env req" by (simp add: fase_verificar_Inr)
  then have none: "googleCalendarEventId c = None" by (simp add: nuevaCita_def)
  then have same: "c\<lparr>googleCalendarEventId := None\<rparr> = c" by simp
  show ?thesis
    using crear_cita_persistida [OF assms(1) assms(2)] assms(3-5) none same by simp
qed

theorem bandera_calendario_sin_referencia_witness:
  "calendario env_sin_adjuntar = Some ''evt1'' \<and> ''evt1'' \<noteq> [] \<and> falla_save2 env_sin_adjuntar \<and>
   (\<exists>r es. crear_cita lib_prueba env_sin_adjuntar req_prueba [] = (Creada r, [cita_prueba], es) \<and>
      r_googleCalendar r \<and> googleCalendarEventId cita_prueba = None)"
proof -
  have v: "fase_verificar lib_prueba env_sin_adjuntar req_prueba [] = Inr cita_prueba"
    unfolding env_sin_adjuntar_def
    by (simp add: fase_verificar_def validacion_defs regla_defs prueba_defs nuevaCita_def
      findOne_confirmada_def)
  have g: "fase_guardar env_sin_adjuntar cita_prueba [] = Inr [cita_prueba]"
    by (simp add: fase_guardar_def insertar_def clave_duplicada_def prueba_defs env_sin_adjuntar_def)
  have k: "calendario env_sin_adjuntar = Some ''evt1''" and f: "falla_save2 env_sin_adjuntar"
    by (simp_all add: env_sin_adjuntar_def env_prueba_def)
  have ne: "''evt1'' \<noteq> []" by simp
  from bandera_calendario_sin_referencia [OF v g k ne f] k f ne show ?thesis
    by auto
qed

text \<open>A 409 answer, on either path, leaves the collection as it was and calls nobody.\<close>

lemma crear_cita_409:
  assumes "fst (crear_cita lib env req s) = HorarioOcupado"
  shows "crear_cita lib env req s = (HorarioOcupado, s, [])"
proof (cases "fase_verificar lib env req s")
  case (Inl r)
  with assms show ?thesis by (simp add: crear_cita_def)
next
  case (Inr c)
  show ?thesis
  proof (cases "fase_guardar env c s")
    case (Inl r)
    with Inr assms show ?thesis by (simp add: crear_cita_def)
  next
    case g: (Inr s1)
    from crear_cita_persistida [OF Inr g] assms show ?thesis by simp
  qed
qed

text \<open>
  C4. When the reservation fails as a taken slot (the lookup finds a confirmed
  appointment, or the insert violates a unique index), the handler answers 409, the
  collection is unchanged and no collaborator is called; and whenever the handler
  answers 409, the collection is unchanged and no collaborator was called.
\<close>

theorem conflicto_sin_efectos:
  "(fase_verificar lib env req s = Inl HorarioOcupado \<or>
    (\<exists>c. fase_verificar lib env req s = Inr c \<and> fase_guardar env c s = Inl HorarioOcupado)
      \<longrightarrow> crear_cita lib env req s = (HorarioOcupado, s, [])) \<and>
   (fst (crear_cita lib env req s) = HorarioOcupado
      \<longrightarrow> crear_cita lib env req s = (HorarioOcupado, s, []))"
proof (intro conjI impI)
  assume "fase_verificar lib env req s = Inl HorarioOcupado \<or>
    (\<exists>c. fase_verificar lib env req s = Inr c \<and> fase_guardar env c s = Inl HorarioOcupado)"
  then show "crear_cita lib env req s = (HorarioOcupado, s, [])"
    by (auto simp: crear_cita_def)
next
  assume "fst (crear_cita lib env req s) = HorarioOcupado"
  then show "crear_cita lib env req s = (HorarioOcupado, s, [])"
    by (rule crear_cita_409)
qed

theorem conflicto_sin_efectos_witness:
  "fase_verificar lib_prueba env_segunda req_prueba [cita_prueba] = Inl HorarioOcupado \<and>
   crear_cita lib_prueba env_segunda req_prueba [cita_prueba] =
     (HorarioOcupado, [cita_prueba], []) \<and>
   codigo HorarioOcupado = 409"
proof -
  have v: "fase_verificar lib_prueba env_segunda req_prueba [cita_prueba] = Inl HorarioOcupado"
    by (simp add: fase_verificar_def validacion_defs regla_defs prueba_defs env_segunda_def
        findOne_confirmada_def)
  have "crear_cita lib_prueba env_segunda req_prueba [cita_prueba] =
     (HorarioOcupado, [cita_prueba], [])"
    using conflicto_sin_efectos [of lib_prueba env_segunda req_prueba "[cita_prueba]"] v
    by blast
  with v show ?thesis by simp
qed

section \<open>Validation\<close>

lemma crear_cita_invalida:
  "validationResult lib env req \<noteq> [] \<Longrightarrow>
   crear_cita lib env req s = (DatosInvalidos (validationResult lib env req), s, [])"
  by (simp add: crear_cita_def fase_verificar_def)

lemma campo_validar_nombreCompleto:
  "(f \<in> campo ` set (validar_nombreCompleto req)) =
     (f = ''nombreCompleto'' \<and> \<not> nombre_valido (body_nombreCompleto req))"
  by (auto simp: validar_nombreCompleto_def err_def)

lemma campo_validar_email:
  "(f \<in> campo ` set (validar_email lib req)) = (f = ''email'' \<and> \<not> isEmail lib (body_email req))"
  by (auto simp: validar_email_def err_def)

lemma campo_validar_telefono:
  "(f \<in> campo ` set (validar_telefono req)) =
     (f = ''telefono'' \<and> \<not> telefono_valido (body_telefono req))"
  by (auto simp: validar_telefono_def err_def)

lemma campo_validar_tipoServicio:
  "(f \<in> campo ` set (validar_tipoServicio req)) =
     (f = ''tipoServicio'' \<and> body_tipoServicio req \<notin> set servicios)"
  by (auto simp: validar_tipoServicio_def err_def)

lemma campo_validar_fecha:
  "(f \<in> campo ` set (validar_fecha lib env req)) =
     (f = ''fecha'' \<and> (\<not> isISO8601 lib (body_fecha req) \<or> fecha_pasada lib env req))"
  by (auto simp: validar_fecha_def err_def)

lemma campo_validar_horario:
  "(f \<in> campo ` set (validar_horario req)) =
     (f = ''horario'' \<and> body_horario req \<notin> set horarios)"
  by (auto simp: validar_horario_def err_def)

lemma campo_validationResult:
  "(f \<in> campo ` set (validationResult lib env req)) =
     (f = ''nombreCompleto'' \<and> \<not> nombre_valido (body_nombreCompleto req) \<or>
      f = ''email'' \<and> \<not> isEmail lib (body_email req) \<or>
      f = ''telefono'' \<and> \<not> telefono_valido (body_telefono req) \<or>
      f = ''tipoServicio'' \<and> body_tipoServicio req \<notin> set servicios \<or>
      f = ''fecha'' \<and> (\<not> isISO8601 lib (body_fecha req) \<or> fecha_pasada lib env req) \<or>
      f = ''horario'' \<and> body_horario req \<notin> set horarios)"
  by (simp only: validationResult_def set_append image_Un Un_iff campo_validar_nombreCompleto
      campo_validar_email campo_validar_telefono campo_validar_tipoServicio campo_validar_fecha
      campo_validar_horario)

text \<open>
  C5. When at least one validation rule fails, the handler answers 400 with the list of
  errors, in which a field occurs exactly when one of its rules fails (so every failing
  field is listed, not only the first), and it does so with the collection unchanged
  and no collaborator called.
\<close>

theorem validacion_enumera_todos_los_campos:
  assumes "\<not> nombre_valido (body_nombreCompleto req) \<or> \<not> isEmail lib (body_email req) \<or>
     \<not> telefono_valido (body_telefono req) \<or> body_tipoServicio req \<notin> set servicios \<or>
     \<not> isISO8601 lib (body_fecha req) \<or> fecha_pasada lib env req \<or>
     body_horario req \<notin> set horarios"
  shows "\<exists>errores. crear_cita lib env req s = (DatosInvalidos errores, s, []) \<and>
     codigo (DatosInvalidos errores) = 400 \<and>
     (''nombreCompleto'' \<in> campo ` set errores) = (\<not> nombre_valido (body_nombreCompleto req)) \<and>
     (''email'' \<in> campo ` set errores) = (\<not> isEmail lib (body_email req)) \<and>
     (''telefono'' \<in> campo ` set errores) = (\<not> telefono_valido (body_telefono req)) \<and>
     (''tipoServicio'' \<in> campo ` set errores) = (body_tipoServicio req \<notin> set servicios) \<and>
     (''fecha'' \<in> campo ` set errores) =
        (\<not> isISO8601 lib (body_fecha req) \<or> fecha_pasada lib env req) \<and>
     (''horario'' \<in> campo ` set errores) = (body_horario req \<notin> set horarios)"
proof -
  let ?e = "validationResult lib env req"
  have 1: "(''nombreCompleto'' \<in> campo ` set ?e) = (\<not> nombre_valido (body_nombreCompleto req))"
    by (simp add: campo_validationResult)
  have 2: "(''email'' \<in> campo ` set ?e) = (\<not> isEmail lib (body_email req))"
    by (simp add: campo_validationResult)
  have 3: "(''telefono'' \<in> campo ` set ?e) = (\<not> telefono_valido (body_telefono req))"
    by (simp add: campo_validationResult)
  have 4: "(''tipoServicio'' \<in> campo ` set ?e) = (body_tipoServicio req \<notin> set servicios)"
    by (simp add: campo_validationResult)
  have 5: "(''fecha'' \<in> campo ` set ?e) = (\<not> isISO8601 lib (body_fecha req) \<or> fecha_pasada lib env req)"
    by (simp add: campo_validationResult)
  have 6: "(''horario'' \<in> campo ` set ?e) = (body_horario req \<notin> set horarios)"
    by (simp add: campo_validationResult)
  have ne: "?e \<noteq> []"
  proof
    assume "?e = []"
    with 1 2 3 4 5 6 assms show False by simp
  qed
  then have r: "crear_cita lib env req s = (DatosInvalidos ?e, s, [])"
    by (rule crear_cita_invalida)
  have c: "codigo (DatosInvalidos ?e) = 400" by simp
  from r c 1 2 3 4 5 6 show ?thesis by blast
qed

theorem validacion_enumera_todos_los_campos_witness:
  "\<not> nombre_valido (body_nombreCompleto req_invalida) \<and>
   body_horario req_invalida \<notin> set horarios \<and>
   (\<exists>errores. crear_cita lib_prueba env_prueba req_invalida [cita_prueba] =
       (DatosInvalidos errores, [cita_prueba], []) \<and>
      ''nombreCompleto'' \<in> campo ` set errores \<and> ''horario'' \<in> campo ` set errores \<and>
      ''email'' \<notin> campo ` set errores)"
proof -
  have n: "\<not> nombre_valido (body_nombreCompleto req_invalida)"
    by (simp add: req_invalida_def req_prueba_def nombre_valido_def trim_def es_espacio_def)
  have h: "body_horario req_invalida \<notin> set horarios"
    by (simp add: req_invalida_def req_prueba_def horarios_def)
  have e: "isEmail lib_prueba (body_email req_invalida)"
    by (simp add: req_invalida_def req_prueba_def lib_prueba_def)
  from n have hyp: "\<not> nombre_valido (body_nombreCompleto req_invalida) \<or>
     \<not> isEmail lib_prueba (body_email req_invalida) \<or>
     \<not> telefono_valido (body_telefono req_invalida) \<or>
     body_tipoServicio req_invalida \<notin> set servicios \<or>
     \<not> isISO8601 lib_prueba (body_fecha req_invalida) \<or>
     fecha_pasada lib_prueba env_prueba req_invalida \<or>
     body_horario req_invalida \<notin> set horarios" by simp
  from validacion_enumera_todos_los_campos [OF hyp, of "[cita_prueba]"] n h e
  show ?thesis by auto
qed

lemma antes_de_hoy:
  "(dia_local z t < dia_local z n) = (t < inicio_del_dia z n)"
  unfolding dia_local_def inicio_del_dia_def by linarith

text \<open>
  C6. A request whose date falls on a calendar day (of the server's local time) strictly
  before the current day is answered 400 with an error on the field \<^verbatim>\<open>fecha\<close>, whatever
  the other fields hold; the collection is unchanged.
\<close>

theorem fecha_anterior_a_hoy_rechazada:
  assumes "toDate lib (body_fecha req) = Some t"
    and "dia_local (tz env) t < dia_local (tz env) (ahora env)"
  shows "\<exists>errores. crear_cita lib env req s = (DatosInvalidos errores, s, []) \<and>
     codigo (DatosInvalidos errores) = 400 \<and> ''fecha'' \<in> campo ` set errores"
proof -
  let ?e = "validationResult lib env req"
  have p: "fecha_pasada lib env req"
    using assms by (simp add: fecha_pasada_def fecha_saneada_def antes_de_hoy)
  then have f: "''fecha'' \<in> campo ` set ?e"
    by (simp add: campo_validationResult)
  then have "?e \<noteq> []" by auto
  then have "crear_cita lib env req s = (DatosInvalidos ?e, s, [])"
    by (rule crear_cita_invalida)
  with f show ?thesis by simp
qed

theorem fecha_anterior_a_hoy_rechazada_witness:
  "toDate lib_prueba (body_fecha req_pasada) = Some 1579046400000 \<and>
   dia_local (tz env_prueba) 1579046400000 < dia_local (tz env_prueba) (ahora env_prueba) \<and>
   (\<exists>errores. crear_cita lib_prueba env_prueba req_pasada [] = (DatosInvalidos errores, [], []) \<and>
      ''fecha'' \<in> campo ` set errores)"
proof -
  have d: "toDate lib_prueba (body_fecha req_pasada) = Some 1579046400000"
    by (simp add: req_pasada_def req_prueba_def lib_prueba_def)
  have b: "dia_local (tz env_prueba) 1579046400000 < dia_local (tz env_prueba) (ahora env_prueba)"
    by (simp add: env_prueba_def dia_local_def)
  from fecha_anterior_a_hoy_rechazada [OF d b, of "[]"] d b show ?thesis by auto
qed

text \<open>
  The same for a date without time of day, which is parsed as midnight UTC of its day:
  with a server less than a day ahead of UTC, a day number below the server's current
  local day is rejected.
\<close>

lemma fecha_sin_hora_anterior_rechazada:
  assumes "toDate lib (body_fecha req) = Some (dia * 86400000)"
    and "dia < dia_local (tz env) (ahora env)" and "tz env < 86400000"
  shows "\<exists>errores. crear_cita lib env req s = (DatosInvalidos errores, s, []) \<and>
     ''fecha'' \<in> campo ` set errores"
proof -
  let ?e = "validationResult lib env req"
  have "dia_local (tz env) (dia * 86400000) \<le> dia"
    using assms(3) unfolding dia_local_def by linarith
  with assms(2) have "dia * 86400000 < inicio_del_dia (tz env) (ahora env)"
    by (simp add: antes_de_hoy [symmetric])
  then have "fecha_pasada lib env req"
    using assms(1) by (simp add: fecha_pasada_def fecha_saneada_def)
  then have f: "''fecha'' \<in> campo ` set ?e"
    by (simp add: campo_validationResult)
  then have "?e \<noteq> []" by auto
  then have "crear_cita lib env req s = (DatosInvalidos ?e, s, [])"
    by (rule crear_cita_invalida)
  with f show ?thesis by simp
qed

section \<open>Cancellation\<close>

lemma findByIdAndUpdate_None:
  "(fst (findByIdAndUpdate i f s) = None) = (\<forall>d\<in>set s. id_cita d \<noteq> i)"
  by (induction s) (auto split: prod.splits)

lemma findByIdAndUpdate_Some:
  "find (\<lambda>d. id_cita d = i) s = Some c \<Longrightarrow> fst (findByIdAndUpdate i f s) = Some (f c)"
  by (induction s) (auto split: prod.splits)

lemma findByIdAndUpdate_find:
  "find (\<lambda>d. id_cita d = i) s = Some c \<Longrightarrow> id_cita (f c) = id_cita c \<Longrightarrow>
   find (\<lambda>d. id_cita d = i) (snd (findByIdAndUpdate i f s)) = Some (f c)"
  by (induction s) (auto split: prod.splits)

lemma findByIdAndUpdate_otros:
  "\<forall>d. id_cita (f d) = id_cita d \<Longrightarrow>
   filter (\<lambda>d. id_cita d \<noteq> i) (snd (findByIdAndUpdate i f s)) = filter (\<lambda>d. id_cita d \<noteq> i) s"
  by (induction s) (auto split: prod.splits)

lemma findByIdAndUpdate_igual:
  "find (\<lambda>d. id_cita d = i) s = Some c \<Longrightarrow> f c = c \<Longrightarrow> snd (findByIdAndUpdate i f s) = s"
  by (induction s) (auto split: prod.splits)

lemma find_id: "find (\<lambda>d. id_cita d = i) s = Some c \<Longrightarrow> id_cita c = i \<and> c \<in> set s"
  by (induction s) (auto split: if_splits)

lemma cancelar_cita_encontrada:
  assumes "find (\<lambda>d. id_cita d = i) s = Some c"
  shows "\<exists>s' es. cancelar_cita False i s = (CancelacionOk i Cancelada, s', es) \<and>
     find (\<lambda>d. id_cita d = i) s' = Some (c\<lparr>estado := Cancelada\<rparr>) \<and>
     filter (\<lambda>d. id_cita d \<noteq> i) s' = filter (\<lambda>d. id_cita d \<noteq> i) s \<and>
     (estado c = Cancelada \<longrightarrow> s' = s)"
proof -
  let ?f = "\<lambda>d. d\<lparr>estado := Cancelada\<rparr>"
  obtain r s' where p: "findByIdAndUpdate i ?f s = (r, s')" by (cases "findByIdAndUpdate i ?f s")
  from findByIdAndUpdate_Some [OF assms, of ?f] p have r: "r = Some (?f c)" by simp
  from findByIdAndUpdate_find [OF assms, of ?f] p
  have f: "find (\<lambda>d. id_cita d = i) s' = Some (?f c)" by simp
  from findByIdAndUpdate_otros [of ?f i s] p
  have o: "filter (\<lambda>d. id_cita d \<noteq> i) s' = filter (\<lambda>d. id_cita d \<noteq> i) s" by simp
  have e: "estado c = Cancelada \<longrightarrow> s' = s"
  proof
    assume "estado c = Cancelada"
    then have "?f c = c" by simp
    from findByIdAndUpdate_igual [of i s c ?f, OF assms this] p show "s' = s" by simp
  qed
  from find_id [OF assms] have i: "id_cita c = i" by simp
  have "\<exists>es. cancelar_cita False i s = (CancelacionOk i Cancelada, s', es)"
    using p r i by (simp add: cancelar_cita_def split: option.split)
  with f o e show ?thesis by blast
qed

lemma cancelar_cita_404:
  "(fst (cancelar_cita False i s) = NoEncontrada) = (\<forall>d\<in>set s. id_cita d \<noteq> i)"
proof -
  let ?f = "\<lambda>d. d\<lparr>estado := Cancelada\<rparr>"
  obtain r s' where p: "findByIdAndUpdate i ?f s = (r, s')" by (cases "findByIdAndUpdate i ?f s")
  from findByIdAndUpdate_None [of i ?f s] p
  have n: "(r = None) = (\<forall>d\<in>set s. id_cita d \<noteq> i)" by simp
  have "(fst (cancelar_cita False i s) = NoEncontrada) = (r = None)"
    using p by (cases r) (simp_all add: cancelar_cita_def)
  with n show ?thesis by simp
qed

lemma cancelar_ruta_no_castable:
  "castObjectId x = None \<Longrightarrow> cancelar_ruta castObjectId falla x s = (ErrorServidor, s, [])"
  by (simp add: cancelar_ruta_def)

lemma cancelar_ruta_castable:
  "castObjectId x = Some i \<Longrightarrow> cancelar_ruta castObjectId falla x s = cancelar_cita falla i s"
  by (simp add: cancelar_ruta_def)

lemma cancelar_cita_no_encontrada:
  assumes "\<forall>d\<in>set s. id_cita d \<noteq> i"
  shows "cancelar_cita False i s = (NoEncontrada, s, [])"
proof -
  let ?f = "\<lambda>d. d\<lparr>estado := Cancelada\<rparr>"
  obtain r s' where p: "findByIdAndUpdate i ?f s = (r, s')" by (cases "findByIdAndUpdate i ?f s")
  from findByIdAndUpdate_None [of i ?f s] p assms have "r = None" by simp
  with p show ?thesis by (simp add: cancelar_cita_def)
qed

text \<open>
  C8, as the code has it. With the storage call not throwing, the cancel route answers
  404 exactly when the identifier can be cast and no stored appointment has it, and then
  changes nothing; an identifier that cannot be cast is answered 500, with nothing
  changed. For an identifier that a stored appointment has, the answer carries the
  identifier and the status cancelled, that appointment is stored as cancelled, all
  other appointments are untouched, and cancelling an appointment that is already
  cancelled is answered the same way and changes nothing.
\<close>

theorem cancelar_ruta_404_o_cancelada:
  "(fst (cancelar_ruta castObjectId False x s) = NoEncontrada) =
     (\<exists>i. castObjectId x = Some i \<and> (\<forall>d\<in>set s. id_cita d \<noteq> i)) \<and>
   (castObjectId x = None \<longrightarrow>
      cancelar_ruta castObjectId False x s = (ErrorServidor, s, [])) \<and>
   (\<forall>i. castObjectId x = Some i \<and> (\<forall>d\<in>set s. id_cita d \<noteq> i) \<longrightarrow>
      cancelar_ruta castObjectId False x s = (NoEncontrada, s, [])) \<and>
   (\<forall>i c. castObjectId x = Some i \<and> find (\<lambda>d. id_cita d = i) s = Some c \<longrightarrow>
      (\<exists>s' es. cancelar_ruta castObjectId False x s = (CancelacionOk i Cancelada, s', es) \<and>
         find (\<lambda>d. id_cita d = i) s' = Some (c\<lparr>estado := Cancelada\<rparr>) \<and>
         filter (\<lambda>d. id_cita d \<noteq> i) s' = filter (\<lambda>d. id_cita d \<noteq> i) s \<and>
         (estado c = Cancelada \<longrightarrow> s' = s)))"
proof (intro conjI allI impI)
  show "(fst (cancelar_ruta castObjectId False x s) = NoEncontrada) =
     (\<exists>i. castObjectId x = Some i \<and> (\<forall>d\<in>set s. id_cita d \<noteq> i))"
  proof (cases "castObjectId x")
    case None
    then show ?thesis by (simp add: cancelar_ruta_no_castable)
  next
    case (Some i)
    then show ?thesis by (simp add: cancelar_ruta_castable cancelar_cita_404)
  qed
next
  assume "castObjectId x = None"
  then show "cancelar_ruta castObjectId False x s = (ErrorServidor, s, [])"
    by (rule cancelar_ruta_no_castable)
next
  fix i assume a: "castObjectId x = Some i \<and> (\<forall>d\<in>set s. id_cita d \<noteq> i)"
  then have "cancelar_cita False i s = (NoEncontrada, s, [])"
    by (simp add: cancelar_cita_no_encontrada)
  with a show "cancelar_ruta castObjectId False x s = (NoEncontrada, s, [])"
    by (simp add: cancelar_ruta_castable)
next
  fix i c assume a: "castObjectId x = Some i \<and> find (\<lambda>d. id_cita d = i) s = Some c"
  then have e: "cancelar_ruta castObjectId False x s = cancelar_cita False i s"
    by (simp add: cancelar_ruta_castable)
  from a have "find (\<lambda>d. id_cita d = i) s = Some c" by simp
  from cancelar_cita_encontrada [OF this] e
  show "\<exists>s' es. cancelar_ruta castObjectId False x s = (CancelacionOk i Cancelada, s', es) \<and>
         find (\<lambda>d. id_cita d = i) s' = Some (c\<lparr>estado := Cancelada\<rparr>) \<and>
         filter (\<lambda>d. id_cita d \<noteq> i) s' = filter (\<lambda>d. id_cita d \<noteq> i) s \<and>
         (estado c = Cancelada \<longrightarrow> s' = s)"
    by simp
qed

lemma cast_prueba_valores:
  "castObjectId_prueba ''000000000000000000000001'' = Some 1"
  "castObjectId_prueba ''000000000000000000000007'' = Some 7"
  "castObjectId_prueba ''abc'' = None"
  by (simp_all add: castObjectId_prueba_def valor_hex_def)

theorem cancelar_ruta_404_o_cancelada_witness:
  "castObjectId_prueba ''000000000000000000000007'' = Some 7 \<and> id_cita cita_prueba \<noteq> 7 \<and>
   cancelar_ruta castObjectId_prueba False ''000000000000000000000007'' [cita_prueba] =
     (NoEncontrada, [cita_prueba], []) \<and>
   castObjectId_prueba ''000000000000000000000001'' = Some 1 \<and>
   find (\<lambda>d. id_cita d = 1) [cita_cancelada] = Some cita_cancelada \<and>
   estado cita_cancelada = Cancelada \<and>
   (\<exists>es. cancelar_ruta castObjectId_prueba False ''000000000000000000000001'' [cita_cancelada] =
      (CancelacionOk 1 Cancelada, [cita_cancelada], es)) \<and>
   castObjectId_prueba ''abc'' = None \<and>
   cancelar_ruta castObjectId_prueba False ''abc'' [cita_prueba] =
     (ErrorServidor, [cita_prueba], [])"
proof -
  have n: "id_cita cita_prueba \<noteq> 7" by (simp add: cita_prueba_def)
  then have a: "\<forall>d\<in>set [cita_prueba]. id_cita d \<noteq> 7" by simp
  have f: "find (\<lambda>d. id_cita d = 1) [cita_cancelada] = Some cita_cancelada"
    by (simp add: cita_cancelada_def cita_prueba_def)
  have e: "estado cita_cancelada = Cancelada" by (simp add: cita_cancelada_def)
  from cancelar_ruta_404_o_cancelada
      [of castObjectId_prueba "''000000000000000000000007''" "[cita_prueba]"]
    cast_prueba_valores(2) a
  have 1: "cancelar_ruta castObjectId_prueba False ''000000000000000000000007'' [cita_prueba] =
     (NoEncontrada, [cita_prueba], [])" by blast
  from cancelar_ruta_404_o_cancelada
      [of castObjectId_prueba "''000000000000000000000001''" "[cita_cancelada]"]
    cast_prueba_valores(1) f e
  have 2: "\<exists>es. cancelar_ruta castObjectId_prueba False ''000000000000000000000001''
      [cita_cancelada] = (CancelacionOk 1 Cancelada, [cita_cancelada], es)" by blast
  from cancelar_ruta_404_o_cancelada [of castObjectId_prueba "''abc''" "[cita_prueba]"]
    cast_prueba_valores(3)
  have 3: "cancelar_ruta castObjectId_prueba False ''abc'' [cita_prueba] =
     (ErrorServidor, [cita_prueba], [])" by blast
  from cast_prueba_valores n f e 1 2 3 show ?thesis by (intro conjI)
qed

text \<open>
  C8 as stated fails for an identifier that is not well formed: \<^verbatim>\<open>abc\<close> matches no stored
  appointment, and the route answers 500, not 404.
\<close>

theorem cancelar_id_mal_formado_500:
  "castObjectId_prueba ''abc'' = None \<and>
   castObjectId_prueba ''abc'' \<noteq> Some (id_cita cita_prueba) \<and>
   cancelar_ruta castObjectId_prueba False ''abc'' [cita_prueba] =
     (ErrorServidor, [cita_prueba], []) \<and>
   codigo ErrorServidor = 500 \<and>
   fst (cancelar_ruta castObjectId_prueba False ''abc'' [cita_prueba]) \<noteq> NoEncontrada"
  by (simp add: cancelar_ruta_def cast_prueba_valores)

text \<open>
  C10. The cancel handler does not look at the status an appointment has: whatever it
  was, completed included, the answer carries the status cancelled and the appointment
  is stored as cancelled.
\<close>

theorem cancelar_desde_cualquier_estado:
  assumes "find (\<lambda>d. id_cita d = i) s = Some c"
  shows "fst (cancelar_cita False i s) = CancelacionOk i Cancelada \<and>
     find (\<lambda>d. id_cita d = i) (fst (snd (cancelar_cita False i s))) =
       Some (c\<lparr>estado := Cancelada\<rparr>)"
  using cancelar_cita_encontrada [OF assms] by auto

theorem cancelar_desde_cualquier_estado_witness:
  "find (\<lambda>d. id_cita d = 1) [cita_completada] = Some cita_completada \<and>
   estado cita_completada = Completada \<and>
   fst (cancelar_cita False 1 [cita_completada]) = CancelacionOk 1 Cancelada \<and>
   find (\<lambda>d. id_cita d = 1) (fst (snd (cancelar_cita False 1 [cita_completada]))) =
     Some (cita_completada\<lparr>estado := Cancelada\<rparr>)"
proof -
  have f: "find (\<lambda>d. id_cita d = 1) [cita_completada] = Some cita_completada"
    by (simp add: cita_completada_def cita_prueba_def)
  have e: "estado cita_completada = Completada" by (simp add: cita_completada_def)
  from cancelar_desde_cualquier_estado [OF f] f e show ?thesis by simp
qed

section \<open>Occupied slots\<close>

lemma manejar_error_no_creada: "manejar_error e \<noteq> Creada r"
  by (cases e) simp_all

lemma fase_verificar_no_creada: "fase_verificar lib env req s \<noteq> Inl (Creada r)"
  by (simp add: fase_verificar_def Let_def split: option.split)

lemma fase_guardar_no_creada: "fase_guardar env c s \<noteq> Inl (Creada r)"
  by (simp add: fase_guardar_def manejar_error_no_creada split: sum.split)

lemma crear_cita_Creada:
  assumes "crear_cita lib env req s = (Creada r, s2, es)"
  shows "\<exists>c. fase_verificar lib env req s = Inr c \<and> fase_guardar env c s = Inr (s @ [c]) \<and>
     estado c = Confirmada \<and> r_id r = id_cita c \<and> r_fecha r = fecha c \<and> r_horario r = horario c \<and>
     s2 = s @ [c\<lparr>googleCalendarEventId := (if falla_save2 env then None else calendario env)\<rparr>]"
proof (cases "fase_verificar lib env req s")
  case (Inl x)
  with assms fase_verificar_no_creada [of lib env req s r] show ?thesis
    by (simp add: crear_cita_def)
next
  case (Inr c)
  show ?thesis
  proof (cases "fase_guardar env c s")
    case (Inl x)
    with Inr assms fase_guardar_no_creada [of env c s r] show ?thesis
      by (simp add: crear_cita_def)
  next
    case g: (Inr s1)
    from fase_verificar_Inr [OF Inr] have e: "estado c = Confirmada" "id_cita c = nuevo_id env"
      by (simp_all add: nuevaCita_def)
    from fase_guardar_Inr [OF g] have s1: "s1 = s @ [c]" by simp
    from crear_cita_persistida [OF Inr g] assms Inr g e s1 show ?thesis by auto
  qed
qed

text \<open>
  C7, as the code has it. The listing returns exactly the confirmed appointments whose
  stored date is not before the instant of the query (not: not before the start of the
  current day), and changes nothing. After a booking answered 201 whose date is not
  before the instant of the query, the listing of the resulting collection holds that
  appointment's date and slot.
\<close>

theorem ocupadas_confirmadas_desde_ahora:
  "(\<exists>l. citas_ocupadas False t s = (Ocupadas l, s, []) \<and>
        set (map (\<lambda>(i, f, h). (f, h)) l) =
          {(fecha c, horario c) |c. c \<in> set s \<and> estado c = Confirmada \<and> t \<le> fecha c}) \<and>
   (crear_cita lib env req s = (Creada r, s2, es) \<and> t \<le> r_fecha r \<longrightarrow>
      (\<exists>l. citas_ocupadas False t s2 = (Ocupadas l, s2, []) \<and>
         (r_id r, r_fecha r, r_horario r) \<in> set l))"
proof (intro conjI impI)
  show "\<exists>l. citas_ocupadas False t s = (Ocupadas l, s, []) \<and>
        set (map (\<lambda>(i, f, h). (f, h)) l) =
          {(fecha c, horario c) |c. c \<in> set s \<and> estado c = Confirmada \<and> t \<le> fecha c}"
    by (auto simp: citas_ocupadas_def image_iff)
next
  assume a: "crear_cita lib env req s = (Creada r, s2, es) \<and> t \<le> r_fecha r"
  then obtain c where c: "estado c = Confirmada" "r_id r = id_cita c" "r_fecha r = fecha c"
      "r_horario r = horario c"
      "s2 = s @ [c\<lparr>googleCalendarEventId := (if falla_save2 env then None else calendario env)\<rparr>]"
    using crear_cita_Creada by blast
  let ?c = "c\<lparr>googleCalendarEventId := (if falla_save2 env then None else calendario env)\<rparr>"
  have "?c \<in> set s2" using c(5) by simp
  moreover have "estado ?c = Confirmada \<and> t \<le> fecha ?c" using c a by simp
  ultimately have "(id_cita ?c, fecha ?c, horario ?c) \<in>
      set (map (\<lambda>c. (id_cita c, fecha c, horario c))
             (filter (\<lambda>c. estado c = Confirmada \<and> t \<le> fecha c) s2))"
    by (simp only: set_map set_filter) blast
  then show "\<exists>l. citas_ocupadas False t s2 = (Ocupadas l, s2, []) \<and>
         (r_id r, r_fecha r, r_horario r) \<in> set l"
    using c by (simp add: citas_ocupadas_def)
qed

theorem ocupadas_confirmadas_desde_ahora_witness:
  "crear_cita lib_prueba env_prueba req_prueba [] =
     (Creada \<lparr> r_id = 1, r_nombreCompleto = ''Ana Lopez'', r_fecha = 1894665600000,
               r_horario = ''09:00'', r_tipoServicio = ''limpieza-dental'',
               r_googleCalendar = True, r_sms = True \<rparr>,
      [cita_prueba\<lparr>googleCalendarEventId := Some ''evt1''\<rparr>],
      [CalendarioInsert cita_prueba, SmsEnviar ''+50370001111'']) \<and>
   (\<exists>l. citas_ocupadas False 1893495600000 [cita_prueba\<lparr>googleCalendarEventId := Some ''evt1''\<rparr>] =
       (Ocupadas l, [cita_prueba\<lparr>googleCalendarEventId := Some ''evt1''\<rparr>], []) \<and>
      (1, 1894665600000, ''09:00'') \<in> set l)"
proof -
  let ?r = "\<lparr> r_id = 1, r_nombreCompleto = ''Ana Lopez'', r_fecha = 1894665600000,
               r_horario = ''09:00'', r_tipoServicio = ''limpieza-dental'',
               r_googleCalendar = True, r_sms = True \<rparr>"
  have k: "crear_cita lib_prueba env_prueba req_prueba [] =
     (Creada ?r, [cita_prueba\<lparr>googleCalendarEventId := Some ''evt1''\<rparr>],
      [CalendarioInsert cita_prueba, SmsEnviar ''+50370001111''])"
    using crear_cita_persistida [OF verificar_prueba guardar_prueba]
    by (simp add: env_prueba_def cita_prueba_def)
  have t: "(1893495600000::int) \<le> r_fecha ?r" by simp
  from ocupadas_confirmadas_desde_ahora [of 1893495600000 "[]" lib_prueba env_prueba req_prueba ?r
      "[cita_prueba\<lparr>googleCalendarEventId := Some ''evt1''\<rparr>]"
      "[CalendarioInsert cita_prueba, SmsEnviar ''+50370001111'']"] k t
  have "\<exists>l. citas_ocupadas False 1893495600000 [cita_prueba\<lparr>googleCalendarEventId := Some ''evt1''\<rparr>] =
       (Ocupadas l, [cita_prueba\<lparr>googleCalendarEventId := Some ''evt1''\<rparr>], []) \<and>
      (r_id ?r, r_fecha ?r, r_horario ?r) \<in> set l" by blast
  with k show ?thesis by simp
qed

text \<open>
  C7 as stated fails for an appointment of the current day: on 1 January 2030 at 10:00
  UTC, a confirmed appointment dated 1 January 2030 (stored as midnight UTC) is on a date
  not before today, and the listing is empty.
\<close>

theorem ocupadas_omite_citas_de_hoy:
  "estado cita_hoy = Confirmada \<and>
   inicio_del_dia 0 1893492000000 \<le> fecha cita_hoy \<and>
   dia_local 0 1893492000000 \<le> dia_local 0 (fecha cita_hoy) \<and>
   citas_ocupadas False 1893492000000 [cita_hoy] = (Ocupadas [], [cita_hoy], [])"
  by (simp add: cita_hoy_def cita_prueba_def inicio_del_dia_def dia_local_def citas_ocupadas_def)

section \<open>Booking a slot whose appointment was cancelled\<close>

text \<open>
  The unique index on \<^verbatim>\<open>(fecha, horario)\<close> counts every stored appointment: a valid
  request for a slot that holds any document, of any status, is answered 409.
\<close>

lemma slot_con_documento_409:
  assumes "validationResult lib env req = []" and "\<not> falla_findOne env" and "\<not> falla_save env"
    and "d \<in> set s" and "fecha d = fecha_saneada lib req" and "horario d = body_horario req"
  shows "crear_cita lib env req s = (HorarioOcupado, s, [])"
proof (cases "findOne_confirmada s (fecha_saneada lib req) (body_horario req)")
  case (Some x)
  with assms(1,2) show ?thesis by (simp add: crear_cita_def fase_verificar_def)
next
  case None
  with assms(1,2) have v: "fase_verificar lib env req s = Inr (nuevaCita lib env req)"
    by (simp add: fase_verificar_def)
  have "clave_duplicada s (nuevaCita lib env req)"
    using assms(4-6) by (auto simp: clave_duplicada_def list_ex_iff nuevaCita_def)
  with assms(3) have "fase_guardar env (nuevaCita lib env req) s = Inl HorarioOcupado"
    by (simp add: fase_guardar_def insertar_def)
  with v show ?thesis by (simp add: crear_cita_def)
qed

text \<open>
  C1 on the code. An appointment is booked (201), then cancelled (200, status cancelled);
  a second valid request for the same date and slot passes the lookup for confirmed
  appointments and is then answered 409 by the duplicate-key error of the insert. The
  slot is not freed.
\<close>

theorem reservar_tras_cancelar_409:
  "crear_cita lib_prueba env_prueba req_prueba [] =
     (Creada \<lparr> r_id = 1, r_nombreCompleto = ''Ana Lopez'', r_fecha = 1894665600000,
               r_horario = ''09:00'', r_tipoServicio = ''limpieza-dental'',
               r_googleCalendar = True, r_sms = True \<rparr>,
      [cita_prueba\<lparr>googleCalendarEventId := Some ''evt1''\<rparr>],
      [CalendarioInsert cita_prueba, SmsEnviar ''+50370001111'']) \<and>
   cancelar_cita False 1 [cita_prueba\<lparr>googleCalendarEventId := Some ''evt1''\<rparr>] =
     (CancelacionOk 1 Cancelada,
      [cita_prueba\<lparr>googleCalendarEventId := Some ''evt1'', estado := Cancelada\<rparr>],
      [CalendarioDelete ''evt1'']) \<and>
   validationResult lib_prueba env_segunda req_prueba = [] \<and>
   findOne_confirmada [cita_prueba\<lparr>googleCalendarEventId := Some ''evt1'', estado := Cancelada\<rparr>]
     1894665600000 ''09:00'' = None \<and>
   crear_cita lib_prueba env_segunda req_prueba
       [cita_prueba\<lparr>googleCalendarEventId := Some ''evt1'', estado := Cancelada\<rparr>] =
     (HorarioOcupado,
      [cita_prueba\<lparr>googleCalendarEventId := Some ''evt1'', estado := Cancelada\<rparr>], [])"
proof -
  let ?s = "[cita_prueba\<lparr>googleCalendarEventId := Some ''evt1'', estado := Cancelada\<rparr>]"
  have 1: "crear_cita lib_prueba env_prueba req_prueba [] =
     (Creada \<lparr> r_id = 1, r_nombreCompleto = ''Ana Lopez'', r_fecha = 1894665600000,
               r_horario = ''09:00'', r_tipoServicio = ''limpieza-dental'',
               r_googleCalendar = True, r_sms = True \<rparr>,
      [cita_prueba\<lparr>googleCalendarEventId := Some ''evt1''\<rparr>],
      [CalendarioInsert cita_prueba, SmsEnviar ''+50370001111''])"
    using crear_cita_persistida [OF verificar_prueba guardar_prueba]
    by (simp add: env_prueba_def cita_prueba_def)
  have 2: "cancelar_cita False 1 [cita_prueba\<lparr>googleCalendarEventId := Some ''evt1''\<rparr>] =
     (CancelacionOk 1 Cancelada, ?s, [CalendarioDelete ''evt1''])"
    by (simp add: cancelar_cita_def cita_prueba_def)
  have 3: "validationResult lib_prueba env_segunda req_prueba = []"
    by (simp add: validacion_defs regla_defs prueba_defs env_segunda_def)
  have 4: "findOne_confirmada ?s 1894665600000 ''09:00'' = None"
    by (simp add: findOne_confirmada_def cita_prueba_def)
  have 5: "crear_cita lib_prueba env_segunda req_prueba ?s = (HorarioOcupado, ?s, [])"
    by (rule slot_con_documento_409 [OF 3, where d = "cita_prueba\<lparr>googleCalendarEventId := Some ''evt1'', estado := Cancelada\<rparr>"])
       (simp_all add: env_segunda_def prueba_defs fecha_saneada_def)
  from 1 2 3 4 5 show ?thesis by (intro conjI)
qed

section \<open>Two concurrent bookings of one slot\<close>

text \<open>Run alone, the four stretches of a request are the handler.\<close>

lemma pasos_en_secuencia:
  "concurrente lib (env, req) b [False, False, False, False] (Inicio, p2, s, []) =
     (case crear_cita lib env req s of (r, s', es) \<Rightarrow> (Fin r, p2, s', es))"
proof (cases "fase_verificar lib env req s")
  case (Inl r)
  then show ?thesis by (simp add: crear_cita_def)
next
  case (Inr c)
  show ?thesis
  proof (cases "fase_guardar env c s")
    case (Inl r)
    with Inr show ?thesis by (simp add: crear_cita_def)
  next
    case g: (Inr s1)
    obtain k c' s2 e1 where f: "fase_calendario env c s1 = (k, c', s2, e1)"
      by (cases "fase_calendario env c s1")
    obtain r e2 where m: "fase_sms env c' k = (r, e2)" by (cases "fase_sms env c' k")
    from Inr g f m show ?thesis by (simp add: crear_cita_def)
  qed
qed


















text \<open>
  The race itself: both lookups run first and find the slot free, then both inserts;
  the second insert violates the index.
\<close>

lemma carrera_ejemplo:
  "concurrente lib_prueba (env_prueba, req_prueba) (env_segunda, req_otra) [False, True]
     (Inicio, Inicio, [cita_otra], []) =
     (Verificado cita_prueba, Verificado (nuevaCita lib_prueba env_segunda req_otra),
      [cita_otra], []) \<and>
   concurrente lib_prueba (env_prueba, req_prueba) (env_segunda, req_otra) plan_carrera
     (Inicio, Inicio, [cita_otra], []) =
     (Fin (Creada \<lparr> r_id = 1, r_nombreCompleto = ''Ana Lopez'', r_fecha = 1894665600000,
                    r_horario = ''09:00'', r_tipoServicio = ''limpieza-dental'',
                    r_googleCalendar = True, r_sms = True \<rparr>),
      Fin HorarioOcupado,
      [cita_otra, cita_prueba\<lparr>googleCalendarEventId := Some ''evt1''\<rparr>],
      [CalendarioInsert cita_prueba, SmsEnviar ''+50370001111''])"
  by (simp add: plan_carrera_def fase_verificar_def fase_guardar_def fase_calendario_def
      fase_sms_def validacion_defs regla_defs prueba_defs env_segunda_def req_otra_def
      cita_otra_def findOne_confirmada_def insertar_def clave_duplicada_def
      adjuntar_evento_def nuevaCita_def)



end
